theory Spec2Isabelle
  imports Main
begin

section \<open>JavaScript strings and numbers used by the sources\<close>

text \<open>
  Strings are lists of characters. A \<open>number\<close> that holds a non-negative integer is a
  \<open>nat\<close>. \<open>Number.prototype.toString\<close> prints an integer below \<open>10^21\<close> in plain decimal
  notation, most significant digit first and without leading zeros: exactly its decimal
  expansion for a safe integer (below \<open>2^53\<close>), and a string of as many digits above.
  From \<open>10^21\<close> on JavaScript switches to exponent notation, which depends on the
  floating-point value and is outside this embedding. \<open>toString\<close> below is the decimal
  expansion.
\<close>

definition digitChar :: "nat \<Rightarrow> char" where
  "digitChar d = ''0123456789'' ! d"

fun toString :: "nat \<Rightarrow> string" where
  "toString n = (if n < 10 then [digitChar n] else toString (n div 10) @ [digitChar (n mod 10)])"

declare toString.simps [simp del]

text \<open>\<open>String.prototype.repeat\<close>.\<close>

definition repeat :: "string \<Rightarrow> nat \<Rightarrow> string" where
  "repeat s count = concat (replicate count s)"

text \<open>
  \<open>s.match(/.{3}/g)\<close>: the matcher scans from the left; at each position it takes three
  characters none of which is a line terminator (the dot does not match those) and goes on
  behind them, or else moves one character on. With no match at all the result is \<open>null\<close>.
\<close>

definition lineTerminator :: "char \<Rightarrow> bool" where
  "lineTerminator c = (c = CHR 0x0A \<or> c = CHR 0x0D)"

fun groups3 :: "string \<Rightarrow> string list" where
  "groups3 (a # b # c # rest) =
     (if lineTerminator a \<or> lineTerminator b \<or> lineTerminator c
      then groups3 (b # c # rest)
      else [a, b, c] # groups3 rest)"
| "groups3 _ = []"

definition match_g3 :: "string \<Rightarrow> string list option" where
  "match_g3 s = (case groups3 s of [] \<Rightarrow> None | g # gs \<Rightarrow> Some (g # gs))"

text \<open>
  Reading an array or a string at an index: \<open>None\<close> stands for \<open>undefined\<close>, which is
  what JavaScript yields out of range.
\<close>

definition index :: "'a list \<Rightarrow> nat \<Rightarrow> 'a option" where
  "index xs i = (if i < length xs then Some (xs ! i) else None)"

definition substring :: "string \<Rightarrow> nat \<Rightarrow> nat \<Rightarrow> string" where
  "substring s start end = take (end - start) (drop start s)"

text \<open>
  \<open>Number(s)\<close> on a string of decimal digits is the number they denote (leading zeros
  allowed, the empty string is 0). The groups that \<open>bytesToHumanReadable\<close> passes are
  digit strings (\<open>padded_digits\<close> below); any other string is given \<open>None\<close>, printed \<open>NaN\<close>.
\<close>

definition isDigit :: "char \<Rightarrow> bool" where
  "isDigit c = (c \<in> set ''0123456789'')"

definition digitValue :: "char \<Rightarrow> nat" where
  "digitValue c = of_char c - 48"

definition Number :: "string \<Rightarrow> nat option" where
  "Number s =
     (if list_all isDigit s then Some (foldl (\<lambda>a c. 10 * a + digitValue c) 0 s) else None)"

text \<open>A template literal prints \<open>Number(out[0])\<close> and a character read by index.\<close>

definition numberText :: "string option \<Rightarrow> string" where
  "numberText g =
     (case g of
        None \<Rightarrow> ''NaN''
      | Some s \<Rightarrow> (case Number s of None \<Rightarrow> ''NaN'' | Some v \<Rightarrow> toString v))"

definition charText :: "char option \<Rightarrow> string" where
  "charText c = (case c of None \<Rightarrow> ''undefined'' | Some x \<Rightarrow> [x])"

section \<open>shared/utils/files.ts: bytesToHumanReadable\<close>

text \<open>
  Reading \<open>out[1].substring\<close> when \<open>out[1]\<close> is \<open>undefined\<close> throws a \<open>TypeError\<close>; this is
  the only way the function can fail to return a string.
\<close>

datatype js_error = TypeError

text \<open>
  The string that is matched: the printed number \<open>s\<close> with \<open>(2 * length s) mod 3\<close> zeros in
  front.
\<close>

definition zeroPad :: "string \<Rightarrow> string" where
  "zeroPad s = repeat ''0'' ((length s * 2) mod 3) @ s"

definition padded :: "nat \<Rightarrow> string" where
  "padded bytes = zeroPad (toString bytes)"

definition units :: string where
  "units = ''  kMGTPEZY''"

definition bytesToHumanReadable :: "nat \<Rightarrow> js_error + string" where
  "bytesToHumanReadable bytes =
     (case match_g3 (padded bytes) of
        None \<Rightarrow> Inr (toString bytes @ '' Bytes'')
      | Some out \<Rightarrow>
          if bytes < 1000 then Inr (toString bytes @ '' Bytes'')
          else (case index out 1 of
                  None \<Rightarrow> Inl TypeError
                | Some g1 \<Rightarrow>
                    let f = substring g1 0 2 in
                    Inr (numberText (index out 0) @ (if f = ''00'' then '''' else ''.'' @ f)
                         @ '' '' @ charText (index units (length out)) @ ''B'')))"

section \<open>Decimal digits\<close>

lemma digitChar_isDigit: "d < 10 \<Longrightarrow> isDigit (digitChar d)"
proof -
  assume "d < 10"
  then have "d \<in> {0,1,2,3,4,5,6,7,8,9}" by auto
  then show ?thesis by (auto simp: isDigit_def digitChar_def)
qed

lemma digitValue_digitChar: "d < 10 \<Longrightarrow> digitValue (digitChar d) = d"
proof -
  assume "d < 10"
  then have "d \<in> {0,1,2,3,4,5,6,7,8,9}" by auto
  then show ?thesis by (auto simp: digitValue_def digitChar_def)
qed

lemma toString_digits: "list_all isDigit (toString n)"
proof (induction n rule: toString.induct)
  case (1 n)
  show ?case
  proof (cases "n < 10")
    case True
    then show ?thesis by (subst toString.simps) (simp add: digitChar_isDigit)
  next
    case False
    with 1 show ?thesis by (subst toString.simps) (simp add: digitChar_isDigit)
  qed
qed

lemma toString_nonempty: "toString n \<noteq> []"
  by (subst toString.simps) simp

lemma foldl_digits_toString:
  "foldl (\<lambda>a c. 10 * a + digitValue c) 0 (toString n) = n"
proof (induction n rule: toString.induct)
  case (1 n)
  show ?case
  proof (cases "n < 10")
    case True
    then show ?thesis by (subst toString.simps) (simp add: digitValue_digitChar)
  next
    case False
    with 1 show ?thesis by (subst toString.simps) (simp add: digitValue_digitChar)
  qed
qed

lemma digitChar_zero: "d < 10 \<Longrightarrow> digitChar d = CHR ''0'' \<Longrightarrow> d = 0"
proof -
  assume "d < 10" and z: "digitChar d = CHR ''0''"
  then have "d \<in> {0,1,2,3,4,5,6,7,8,9}" by auto
  with z show ?thesis by (auto simp: digitChar_def)
qed

text \<open>No leading zero, except for 0 itself.\<close>

lemma toString_leading: "0 < n \<Longrightarrow> hd (toString n) \<noteq> CHR ''0''"
proof (induction n rule: toString.induct)
  case (1 n)
  show ?case
  proof (cases "n < 10")
    case True
    with 1(2) show ?thesis
      by (subst toString.simps) (auto dest: digitChar_zero)
  next
    case False
    then have "0 < n div 10" by simp
    with 1(1) False have "hd (toString (n div 10)) \<noteq> CHR ''0''" by blast
    with False show ?thesis
      by (subst toString.simps) (simp add: toString_nonempty)
  qed
qed

text \<open>Reading the printed digits back gives the number: \<open>toString\<close> is its decimal form.\<close>

lemma Number_toString: "Number (toString n) = Some n"
  by (simp add: Number_def toString_digits foldl_digits_toString)

lemma toString_inj: "toString m = toString n \<Longrightarrow> m = n"
proof -
  assume "toString m = toString n"
  then have "Number (toString m) = Number (toString n)" by simp
  then show ?thesis by (simp add: Number_toString)
qed

lemma length_toString_le: "n < 10 ^ k \<Longrightarrow> 0 < k \<Longrightarrow> length (toString n) \<le> k"
proof (induction n arbitrary: k rule: toString.induct)
  case (1 n)
  show ?case
  proof (cases "n < 10")
    case True
    with 1(3) show ?thesis by (subst toString.simps) simp
  next
    case False
    obtain j where k: "k = Suc j" using 1(3) by (cases k) auto
    from False 1(2) k have "0 < j" by (cases j) auto
    moreover from 1(2) k have "n div 10 < 10 ^ j"
      by (simp add: less_mult_imp_div_less mult.commute)
    ultimately have "length (toString (n div 10)) \<le> j" using 1(1) False by blast
    with False k show ?thesis by (subst toString.simps) simp
  qed
qed


section \<open>The Slack router: slack.commands and slack.post\<close>

text \<open>
  The two handlers that complete the installation of a Slack integration. The router
  registers them when the Slack client id and secret are configured, behind the
  authentication middleware in its optional mode, which lets a request without a session
  through with no user.
\<close>

text \<open>
  A query parameter is a string or \<open>undefined\<close> (\<open>None\<close>). A string is truthy when it is
  not empty; \<open>a || b\<close> is \<open>a\<close> when \<open>a\<close> is truthy and \<open>b\<close> otherwise; \<open>String(v)\<close> prints
  \<open>undefined\<close> for a missing value.
\<close>

definition truthy :: "string option \<Rightarrow> bool" where
  "truthy v = (case v of None \<Rightarrow> False | Some s \<Rightarrow> s \<noteq> [])"

definition or_else :: "string option \<Rightarrow> string option \<Rightarrow> string option" where
  "or_else a b = (if truthy a then a else b)"

definition String :: "string option \<Rightarrow> string" where
  "String v = (case v of None \<Rightarrow> ''undefined'' | Some s \<Rightarrow> s)"

text \<open>\<open>s.split(sep)\<close> for a separator of one character.\<close>

fun split :: "char \<Rightarrow> string \<Rightarrow> string list" where
  "split sep [] = [[]]"
| "split sep (c # cs) =
     (if c = sep then [] # split sep cs
      else (case split sep cs of [] \<Rightarrow> [[c]] | p # ps \<Rightarrow> (c # p) # ps))"

text \<open>
  What can leave a handler as an exception: a failed validation, or a failure of the call
  to Slack (\<open>Slack.oauthAccess\<close>, an external service given to the handlers as a function).
\<close>

datatype exn = ValidationError string | OAuthError

text \<open>
  Modelled from the spec: \<open>assertPresent\<close> of \<open>@server/validation\<close> is not among the sources.
  The spec names the failure of a missing required field \<open>ValidationError\<close>; a value that is
  \<open>undefined\<close> or empty is missing.
\<close>

definition assertPresent :: "string option \<Rightarrow> string \<Rightarrow> exn + unit" where
  "assertPresent v message =
     (case v of
        None \<Rightarrow> Inl (ValidationError message)
      | Some s \<Rightarrow> if s = [] then Inl (ValidationError message) else Inr ())"

text \<open>
  Modelled from the spec: \<open>assertUuid\<close> of \<open>@server/validation\<close> is not among the sources
  either. It fails like \<open>assertPresent\<close>; which strings are UUIDs is the parameter \<open>isUUID\<close>.
\<close>

definition assertUuid :: "(string \<Rightarrow> bool) \<Rightarrow> string option \<Rightarrow> string \<Rightarrow> exn + unit" where
  "assertUuid isUUID v message =
     (case v of
        None \<Rightarrow> Inl (ValidationError message)
      | Some s \<Rightarrow> if isUUID s then Inr () else Inl (ValidationError message))"

text \<open>
  The request as the handlers read it (\<open>ctx.request.query\<close>, \<open>path\<close>, \<open>querystring\<close>), the
  user the authentication middleware may have put into \<open>ctx.state\<close>, and the rows of the
  models the handlers touch. Of a team only \<open>url\<close> is read, of a collection only \<open>teamId\<close>.
\<close>

record request =
  req_code :: "string option"
  req_state :: "string option"
  req_error :: "string option"
  req_path :: string
  req_querystring :: string

record user_row =
  user_id :: string
  user_teamId :: string

record team_row =
  team_url :: string

record collection_row =
  collection_teamId :: string

record incoming_webhook =
  webhook_url :: string
  webhook_channel :: string
  webhook_channel_id :: string

record oauth_data =
  access_token :: string
  scope :: string
  team_id :: string
  incoming_webhook :: incoming_webhook

record integrationAuthentication =
  auth_id :: nat
  auth_service :: string
  auth_userId :: string
  auth_teamId :: string
  auth_token :: string
  auth_scopes :: "string list"

datatype settings =
    CommandSettings string
  | PostSettings string string string

record integration =
  int_service :: string
  int_type :: string
  int_userId :: string
  int_teamId :: string
  int_authenticationId :: nat
  int_collectionId :: "string option"
  int_events :: "string list"
  int_settings :: settings

text \<open>
  The database: teams and collections by primary key, and the two tables the handlers
  write. \<open>findByPk\<close> and \<open>findOne\<close> with \<open>rejectOnEmpty\<close> throw when no row is found; the
  handlers catch that, so a lookup is a partial map.
\<close>

record database =
  teams :: "string \<rightharpoonup> team_row"
  collections :: "string \<rightharpoonup> collection_row"
  integrationAuthentications :: "integrationAuthentication list"
  integrations :: "integration list"

datatype response = Redirect string

definition createIntegrationAuthentication ::
  "database \<Rightarrow> string \<Rightarrow> string \<Rightarrow> string \<Rightarrow> string \<Rightarrow> string list
     \<Rightarrow> integrationAuthentication \<times> database" where
  "createIntegrationAuthentication db service userId teamId token scopes =
     (let row = \<lparr>auth_id = length (integrationAuthentications db), auth_service = service,
                 auth_userId = userId, auth_teamId = teamId, auth_token = token,
                 auth_scopes = scopes\<rparr>
      in (row, db\<lparr>integrationAuthentications := integrationAuthentications db @ [row]\<rparr>))"

definition createIntegration :: "database \<Rightarrow> integration \<Rightarrow> database" where
  "createIntegration db row = db\<lparr>integrations := integrations db @ [row]\<rparr>"

definition unauthenticated :: string where
  "unauthenticated = ''/settings/integrations/slack?error=unauthenticated''"

text \<open>
  A handler returns the exception that left it, or the response with the database as it
  is afterwards. Nothing is written before the last point where a handler can throw.
\<close>

definition slack_commands ::
  "string \<Rightarrow> (string \<Rightarrow> string \<Rightarrow> exn + oauth_data) \<Rightarrow> database \<Rightarrow> user_row option
     \<Rightarrow> request \<Rightarrow> exn + response \<times> database" where
  "slack_commands envURL oauthAccess db user req =
     (case assertPresent (or_else (req_code req) (req_error req)) ''code is required'' of
        Inl e \<Rightarrow> Inl e
      | Inr _ \<Rightarrow>
          if truthy (req_error req)
          then Inr (Redirect (''/settings/integrations/slack?error='' @ String (req_error req)), db)
          else (case user of
                  None \<Rightarrow>
                    if truthy (req_state req)
                    then (case teams db (String (req_state req)) of
                            Some team \<Rightarrow>
                              Inr (Redirect (team_url team @ ''/auth'' @ req_path req @ ''?''
                                             @ req_querystring req), db)
                          | None \<Rightarrow> Inr (Redirect unauthenticated, db))
                    else Inr (Redirect unauthenticated, db)
                | Some u \<Rightarrow>
                    (case oauthAccess (String (req_code req)) (envURL @ ''/auth/slack.commands'') of
                       Inl e \<Rightarrow> Inl e
                     | Inr data \<Rightarrow>
                         let (authentication, db1) =
                               createIntegrationAuthentication db ''slack'' (user_id u)
                                 (user_teamId u) (access_token data) (split CHR '','' (scope data));
                             db2 = createIntegration db1
                                 \<lparr>int_service = ''slack'', int_type = ''command'',
                                  int_userId = user_id u, int_teamId = user_teamId u,
                                  int_authenticationId = auth_id authentication,
                                  int_collectionId = None, int_events = [],
                                  int_settings = CommandSettings (team_id data)\<rparr>
                         in Inr (Redirect ''/settings/integrations/slack'', db2))))"

definition slack_post ::
  "string \<Rightarrow> (string \<Rightarrow> bool) \<Rightarrow> (string \<Rightarrow> string \<Rightarrow> exn + oauth_data) \<Rightarrow> database
     \<Rightarrow> user_row option \<Rightarrow> request \<Rightarrow> exn + response \<times> database" where
  "slack_post envURL isUUID oauthAccess db user req =
     (case assertPresent (or_else (req_code req) (req_error req)) ''code is required'' of
        Inl e \<Rightarrow> Inl e
      | Inr _ \<Rightarrow>
          (case assertUuid isUUID (req_state req) ''collectionId must be an uuid'' of
             Inl e \<Rightarrow> Inl e
           | Inr _ \<Rightarrow>
               if truthy (req_error req)
               then Inr (Redirect (''/settings/integrations/slack?error='' @ String (req_error req)), db)
               else (case user of
                  None \<Rightarrow>
                    (case collections db (String (req_state req)) of
                       None \<Rightarrow> Inr (Redirect unauthenticated, db)
                     | Some collection \<Rightarrow>
                         (case teams db (collection_teamId collection) of
                            None \<Rightarrow> Inr (Redirect unauthenticated, db)
                          | Some team \<Rightarrow>
                              Inr (Redirect (team_url team @ ''/auth'' @ req_path req @ ''?''
                                             @ req_querystring req), db)))
                | Some u \<Rightarrow>
                    (case oauthAccess (String (req_code req)) (envURL @ ''/auth/slack.post'') of
                       Inl e \<Rightarrow> Inl e
                     | Inr data \<Rightarrow>
                         let (authentication, db1) =
                               createIntegrationAuthentication db ''slack'' (user_id u)
                                 (user_teamId u) (access_token data) (split CHR '','' (scope data));
                             db2 = createIntegration db1
                                 \<lparr>int_service = ''slack'', int_type = ''post'',
                                  int_userId = user_id u, int_teamId = user_teamId u,
                                  int_authenticationId = auth_id authentication,
                                  int_collectionId = req_state req,
                                  int_events = [''documents.update'', ''documents.publish''],
                                  int_settings =
                                    PostSettings (webhook_url (incoming_webhook data))
                                      (webhook_channel (incoming_webhook data))
                                      (webhook_channel_id (incoming_webhook data))\<rparr>
                         in Inr (Redirect ''/settings/integrations/slack'', db2)))))"

section \<open>Team provisioning in a multi-tenant deployment\<close>

text \<open>
  \<open>teamCreator\<close> is called by the tests of \<open>teamCreator.test\<close> and, through
  \<open>accountProvisioner\<close>, by the Slack strategy, but its code is not among the sources. The
  definitions of this section follow the spec: its data model, the Domain Availability
  Checker and the Team Resolver in multi-tenant mode (\<open>env.DEPLOYMENT = "hosted"\<close> in the
  tests). The single-tenant rules and the Account Provisioner are not modelled.
\<close>

text \<open>
  Modelled from the spec: a Team with its identifier, display name, subdomain, avatar,
  allow-listed login domains (TeamDomain) and attached authentication providers, each a
  pair of provider name and provider account id.
\<close>

record Team =
  Team_id :: nat
  Team_name :: string
  Team_subdomain :: "string option"
  Team_avatarUrl :: "string option"
  Team_domains :: "string list"
  Team_providers :: "(string \<times> string) list"

text \<open>
  Modelled from the spec: the desired team attributes given to the Team Resolver (name,
  subdomain, avatar, an optional existing-team id and an optional login domain). The
  multi-tenant rules do not consult the id.
\<close>

record TeamInput =
  in_id :: "nat option"
  in_name :: string
  in_subdomain :: string
  in_avatarUrl :: "string option"
  in_domain :: "string option"

text \<open>Modelled from the spec: a subdomain is used when some existing team holds it.\<close>

definition subdomainUsed :: "Team list \<Rightarrow> string \<Rightarrow> bool" where
  "subdomainUsed ts d = list_ex (\<lambda>t. Team_subdomain t = Some d) ts"

text \<open>
  Only finitely many suffixes of a desired subdomain are in use, since the teams are
  finitely many and different numbers print differently.
\<close>

lemma finite_used_suffixes: "finite {k. subdomainUsed ts (desired @ toString k)}"
proof -
  have "finite {d. subdomainUsed ts d}"
  proof (rule finite_subset)
    show "{d. subdomainUsed ts d} \<subseteq> the ` set (map Team_subdomain ts)"
      by (force simp: subdomainUsed_def list_ex_iff)
    show "finite (the ` set (map Team_subdomain ts))" by simp
  qed
  moreover have "inj (\<lambda>k. desired @ toString k)"
    by (rule injI) (simp add: toString_inj)
  ultimately have "finite ((\<lambda>k. desired @ toString k) -` {d. subdomainUsed ts d})"
    by (rule finite_vimageI)
  then show ?thesis by (simp add: vimage_def)
qed

text \<open>
  Modelled from the spec: the probing of the Domain Availability Checker, \<open>desired + "1"\<close>,
  \<open>desired + "2"\<close>, ... in ascending order with no upper bound, returning the first unused
  value. It ends because only finitely many subdomains are used.
\<close>

function probe :: "Team list \<Rightarrow> string \<Rightarrow> nat \<Rightarrow> string" where
  "probe ts desired n =
     (if subdomainUsed ts (desired @ toString n) then probe ts desired (Suc n)
      else desired @ toString n)"
  by pat_completeness auto
termination
proof (relation "measure (\<lambda>(ts, desired, n). card {k. n \<le> k \<and> subdomainUsed ts (desired @ toString k)})")
  show "wf (measure (\<lambda>(ts, desired, n). card {k. n \<le> k \<and> subdomainUsed ts (desired @ toString k)}))"
    by simp
next
  fix ts :: "Team list" and desired :: string and n :: nat
  assume used: "subdomainUsed ts (desired @ toString n)"
  have fin: "finite {k. n \<le> k \<and> subdomainUsed ts (desired @ toString k)}"
    using finite_used_suffixes [of ts desired] by simp
  have "n \<in> {k. n \<le> k \<and> subdomainUsed ts (desired @ toString k)}"
    using used by simp
  moreover have "n \<notin> {k. Suc n \<le> k \<and> subdomainUsed ts (desired @ toString k)}"
    by simp
  moreover have "{k. Suc n \<le> k \<and> subdomainUsed ts (desired @ toString k)}
      \<subseteq> {k. n \<le> k \<and> subdomainUsed ts (desired @ toString k)}"
    by auto
  ultimately have "{k. Suc n \<le> k \<and> subdomainUsed ts (desired @ toString k)}
      \<subset> {k. n \<le> k \<and> subdomainUsed ts (desired @ toString k)}"
    by blast
  then have "card {k. Suc n \<le> k \<and> subdomainUsed ts (desired @ toString k)}
      < card {k. n \<le> k \<and> subdomainUsed ts (desired @ toString k)}"
    using fin by (rule psubset_card_mono [rotated])
  then show "((ts, desired, Suc n), (ts, desired, n))
      \<in> measure (\<lambda>(ts, desired, n). card {k. n \<le> k \<and> subdomainUsed ts (desired @ toString k)})"
    by simp
qed

declare probe.simps [simp del]

text \<open>
  Modelled from the spec: \<open>resolveAvailableSubdomain\<close>, the Domain Availability Checker: a
  free \<open>desired\<close> is returned unchanged, otherwise the suffixes are probed from 1.
\<close>

definition resolveAvailableSubdomain :: "Team list \<Rightarrow> string \<Rightarrow> string" where
  "resolveAvailableSubdomain ts desired =
     (if subdomainUsed ts desired then probe ts desired 1 else desired)"

text \<open>
  Modelled from the spec: the lookups of the Team Resolver, by allow-listed domain and by
  authentication provider. Where several teams match, the oldest is taken.
\<close>

definition findByDomain :: "Team list \<Rightarrow> string \<Rightarrow> Team option" where
  "findByDomain ts d = find (\<lambda>t. d \<in> set (Team_domains t)) ts"

definition findByProvider :: "Team list \<Rightarrow> string \<times> string \<Rightarrow> Team option" where
  "findByProvider ts p = find (\<lambda>t. p \<in> set (Team_providers t)) ts"

text \<open>
  Modelled from the spec: a new team takes name and avatar verbatim from the input and its
  subdomain from the Domain Availability Checker. Its id is one not yet in use.
\<close>

definition freshId :: "Team list \<Rightarrow> nat" where
  "freshId ts = Suc (foldr max (map Team_id ts) 0)"

definition newTeam :: "Team list \<Rightarrow> TeamInput \<Rightarrow> Team" where
  "newTeam ts inp =
     \<lparr>Team_id = freshId ts, Team_name = in_name inp,
      Team_subdomain = Some (resolveAvailableSubdomain ts (in_subdomain inp)),
      Team_avatarUrl = in_avatarUrl inp, Team_domains = [], Team_providers = []\<rparr>"

text \<open>
  Modelled from the spec: the Team Resolver in multi-tenant mode. A supplied domain that
  is allow-listed by a team gives that team; else a team that has the authentication
  provider gives that team; else a team is created. The result is the teams afterwards,
  the team and whether it is new.
\<close>

definition teamResolver ::
  "Team list \<Rightarrow> TeamInput \<Rightarrow> string \<times> string \<Rightarrow> Team list \<times> Team \<times> bool" where
  "teamResolver ts inp p =
     (case (case in_domain inp of None \<Rightarrow> None | Some d \<Rightarrow> findByDomain ts d) of
        Some t \<Rightarrow> (ts, t, False)
      | None \<Rightarrow>
          (case findByProvider ts p of
             Some t \<Rightarrow> (ts, t, False)
           | None \<Rightarrow> (ts @ [newTeam ts inp], newTeam ts inp, True)))"

text \<open>
  Modelled from the spec: attaching an authentication provider to a team appends the pair
  unless the team has it already (attaching twice is a no-op).
\<close>

definition attach :: "string \<times> string \<Rightarrow> Team \<Rightarrow> Team" where
  "attach p t =
     (if p \<in> set (Team_providers t) then t
      else t\<lparr>Team_providers := Team_providers t @ [p]\<rparr>)"

definition attachProvider :: "Team list \<Rightarrow> nat \<Rightarrow> string \<times> string \<Rightarrow> Team list" where
  "attachProvider ts i p = map (\<lambda>t. if Team_id t = i then attach p t else t) ts"

text \<open>
  Modelled from the spec: \<open>teamCreator\<close> as the hosted tests call it: the Team Resolver
  followed by the attachment of the authentication provider to the resolved team.
\<close>

record TeamCreatorResult =
  team :: Team
  authenticationProvider :: "string \<times> string"
  isNewTeam :: bool

definition teamCreator ::
  "Team list \<Rightarrow> TeamInput \<Rightarrow> string \<times> string \<Rightarrow> Team list \<times> TeamCreatorResult" where
  "teamCreator ts inp p =
     (case teamResolver ts inp p of
        (ts', t, new) \<Rightarrow>
          (attachProvider ts' (Team_id t) p,
           \<lparr>team = attach p t, authenticationProvider = p, isNewTeam = new\<rparr>))"

text \<open>
  The inputs on which the resolver takes its creating branch: no allow-listed domain
  matches and no team has the provider.
\<close>

definition creates :: "Team list \<Rightarrow> TeamInput \<Rightarrow> string \<times> string \<Rightarrow> bool" where
  "creates ts inp p =
     ((case in_domain inp of None \<Rightarrow> True | Some d \<Rightarrow> findByDomain ts d = None)
      \<and> findByProvider ts p = None)"

section \<open>Requests, databases and teams of the examples\<close>

definition request0 :: request where
  "request0 = \<lparr>req_code = Some ''abc'', req_state = Some ''team-1'', req_error = None,
               req_path = ''/slack.commands'', req_querystring = ''code=abc&state=team-1''\<rparr>"

definition request1 :: request where
  "request1 = \<lparr>req_code = None, req_state = None, req_error = None,
               req_path = ''/slack.commands'', req_querystring = ''''\<rparr>"

definition denied :: request where
  "denied = \<lparr>req_code = None, req_state = None, req_error = Some ''access_denied'',
             req_path = ''/slack.post'', req_querystring = ''error=access_denied''\<rparr>"

definition database0 :: database where
  "database0 = \<lparr>teams = [''team-1'' \<mapsto> \<lparr>team_url = ''https://acme.example.com''\<rparr>],
                collections = Map.empty, integrationAuthentications = [], integrations = []\<rparr>"

definition noSlack :: "string \<Rightarrow> string \<Rightarrow> exn + oauth_data" where
  "noSlack c endpoint = Inl OAuthError"

definition isUUID36 :: "string \<Rightarrow> bool" where
  "isUUID36 s = (length s = 36)"

text \<open>The factory of the tests, \<open>buildTeam\<close>, and the input the tests pass.\<close>

definition buildTeam ::
  "Team list \<Rightarrow> string option \<Rightarrow> string list \<Rightarrow> (string \<times> string) list \<Rightarrow> Team list" where
  "buildTeam ts sub doms provs =
     ts @ [\<lparr>Team_id = freshId ts, Team_name = ''Team '' @ toString (freshId ts),
            Team_subdomain = sub, Team_avatarUrl = None, Team_domains = doms,
            Team_providers = provs\<rparr>]"

definition testInput :: "string \<Rightarrow> string \<Rightarrow> string option \<Rightarrow> TeamInput" where
  "testInput n s d = \<lparr>in_id = None, in_name = n, in_subdomain = s,
      in_avatarUrl = Some ''http://example.com/logo.png'', in_domain = d\<rparr>"

definition google :: "string \<times> string" where
  "google = (''google'', ''example.com'')"

definition myteam :: "Team list" where
  "myteam = buildTeam [] (Some ''myteam'') [] []"

definition myteam1 :: "Team list" where
  "myteam1 = buildTeam myteam (Some ''myteam1'') [] []"

section \<open>bytesToHumanReadable below 1000\<close>

text \<open>
  C8. For every non-negative integer \<open>bytes\<close> below 1000, \<open>bytesToHumanReadable\<close> returns
  the decimal representation of \<open>bytes\<close> followed by \<open>" Bytes"\<close>. That \<open>toString bytes\<close> is
  the decimal representation is part of the statement: it consists of at most three
  digits, has no leading zero unless \<open>bytes\<close> is 0, and reads back as \<open>bytes\<close>.
\<close>

theorem bytesToHumanReadable_below_1000:
  assumes "bytes < 1000"
  shows "bytesToHumanReadable bytes = Inr (toString bytes @ '' Bytes'')
     \<and> list_all isDigit (toString bytes)
     \<and> length (toString bytes) \<le> 3
     \<and> (0 < bytes \<longrightarrow> hd (toString bytes) \<noteq> CHR ''0'')
     \<and> Number (toString bytes) = Some bytes"
proof (intro conjI impI)
  show "bytesToHumanReadable bytes = Inr (toString bytes @ '' Bytes'')"
    using assms by (simp add: bytesToHumanReadable_def split: option.split)
  show "list_all isDigit (toString bytes)" by (rule toString_digits)
  show "length (toString bytes) \<le> 3"
    by (rule length_toString_le) (use assms in simp_all)
  show "hd (toString bytes) \<noteq> CHR ''0''" if "0 < bytes"
    using that by (rule toString_leading)
  show "Number (toString bytes) = Some bytes" by (rule Number_toString)
qed

theorem bytesToHumanReadable_below_1000_witness:
  "(999::nat) < 1000 \<and> (0::nat) < 999
   \<and> toString 999 = ''999''
   \<and> bytesToHumanReadable 999 = Inr ''999 Bytes''
   \<and> bytesToHumanReadable 0 = Inr ''0 Bytes''"
  using bytesToHumanReadable_below_1000 [of 999] bytesToHumanReadable_below_1000 [of 0]
  by (simp add: toString.simps digitChar_def)

section \<open>bytesToHumanReadable: grouping and index reads\<close>

lemma isDigit_not_lineTerminator: "isDigit c \<Longrightarrow> \<not> lineTerminator c"
  by (auto simp: isDigit_def lineTerminator_def)

lemma groups3_length:
  "list_all (\<lambda>c. \<not> lineTerminator c) s \<Longrightarrow> length (groups3 s) = length s div 3"
  by (induction s rule: groups3.induct) auto

lemma groups3_concat:
  "list_all (\<lambda>c. \<not> lineTerminator c) s \<Longrightarrow> length s mod 3 = 0 \<Longrightarrow> concat (groups3 s) = s"
  by (induction s rule: groups3.induct) (auto simp: mod_Suc split: if_splits)

lemma repeat_zero: "repeat ''0'' k = replicate k (CHR ''0'')"
  by (induction k) (simp_all add: repeat_def)

lemma replicate_zero_digits: "list_all isDigit (replicate k (CHR ''0''))"
  by (induction k) (simp_all add: isDigit_def)

text \<open>
  The grouping of a zero-padded string, whatever the string: its length is a multiple of
  3 and it falls into groups of three. A string of 4 to 27 characters gives 2 to 9 groups.
  This needs no more of the string than that it has no line terminator, so it also holds
  for a number that JavaScript prints in exponent notation.
\<close>

lemma length_zeroPad: "length (zeroPad s) = (length s * 2) mod 3 + length s"
  by (simp add: zeroPad_def repeat_zero)

lemma length_zeroPad_mod3: "length (zeroPad s) mod 3 = 0"
  unfolding length_zeroPad by presburger

lemma zeroPad_no_lineTerminator:
  "list_all (\<lambda>c. \<not> lineTerminator c) s \<Longrightarrow> list_all (\<lambda>c. \<not> lineTerminator c) (zeroPad s)"
  by (simp add: zeroPad_def repeat_zero list_all_length lineTerminator_def nth_append)

lemma length_groups3_zeroPad:
  assumes "list_all (\<lambda>c. \<not> lineTerminator c) s"
  shows "3 * length (groups3 (zeroPad s)) = length (zeroPad s)"
  using length_zeroPad_mod3 [of s] zeroPad_no_lineTerminator [OF assms]
  by (simp add: groups3_length) presburger

lemma groups3_zeroPad_bounds:
  assumes "list_all (\<lambda>c. \<not> lineTerminator c) s" and "4 \<le> length s" and "length s \<le> 27"
  shows "2 \<le> length (groups3 (zeroPad s)) \<and> length (groups3 (zeroPad s)) \<le> 9"
proof -
  from assms(2,3) have "4 \<le> length (zeroPad s)" and "length (zeroPad s) \<le> 29"
    by (simp_all add: length_zeroPad)
  with length_groups3_zeroPad [OF assms(1)] show ?thesis by arith
qed

text \<open>The digits of \<open>bytes\<close> are such a string.\<close>

lemma padded_digits: "list_all isDigit (padded bytes)"
  by (simp add: padded_def zeroPad_def repeat_zero toString_digits replicate_zero_digits)

lemma toString_no_lineTerminator: "list_all (\<lambda>c. \<not> lineTerminator c) (toString bytes)"
  using toString_digits [of bytes] by (simp add: list_all_length isDigit_not_lineTerminator)

lemma length_padded:
  "length (padded bytes) = (length (toString bytes) * 2) mod 3 + length (toString bytes)"
  by (simp add: padded_def length_zeroPad)


lemma length_groups3_padded: "3 * length (groups3 (padded bytes)) = length (padded bytes)"
  unfolding padded_def by (rule length_groups3_zeroPad) (rule toString_no_lineTerminator)




lemma groups_le9: assumes "bytes < 10 ^ 27" shows "length (groups3 (padded bytes)) \<le> 9"
proof -
  have "length (toString bytes) \<le> 27" using assms by (rule length_toString_le) simp
  then have "length (padded bytes) \<le> 29" by (simp add: length_padded)
  with length_groups3_padded [of bytes] show ?thesis by arith
qed



section \<open>An example: 1500 bytes\<close>

lemma padded_1500: "padded 1500 = ''001500''"
  by code_simp




section \<open>The Slack handlers: validation and forwarding\<close>

lemma assertPresent_truthy: "truthy v \<Longrightarrow> assertPresent v message = Inr ()"
  by (auto simp: truthy_def assertPresent_def split: option.splits)

lemma or_else_code: "truthy c \<Longrightarrow> or_else c e = c"
  by (simp add: or_else_def)

lemma or_else_error: "\<not> truthy c \<Longrightarrow> or_else c e = e"
  by (simp add: or_else_def)

lemma assertPresent_undefined: "assertPresent None message = Inl (ValidationError message)"
  by (simp add: assertPresent_def)

text \<open>
  C10, as amended. In \<open>slack.commands\<close>, for a request with a non-empty \<open>code\<close>, no \<open>error\<close>
  and no authenticated user: when \<open>state\<close> is non-empty and names an existing team, the
  response is a redirect to the team's url followed by \<open>/auth\<close>, the request path, \<open>?\<close> and
  the query string; when \<open>state\<close> is absent, empty or names no team, it is a redirect to
  \<open>/settings/integrations/slack?error=unauthenticated\<close>. In both cases the database is
  unchanged: no IntegrationAuthentication and no Integration is created.
\<close>

theorem slack_commands_forwarding:
  assumes "truthy (req_code req)" and "req_error req = None"
  shows "(\<forall>s team. req_state req = Some s \<and> s \<noteq> [] \<and> teams db s = Some team \<longrightarrow>
            slack_commands envURL oauthAccess db None req =
              Inr (Redirect (team_url team @ ''/auth'' @ req_path req @ ''?''
                             @ req_querystring req), db))
       \<and> ((\<not> truthy (req_state req) \<or> teams db (String (req_state req)) = None) \<longrightarrow>
            slack_commands envURL oauthAccess db None req = Inr (Redirect unauthenticated, db))"
proof -
  have present: "assertPresent (or_else (req_code req) (req_error req)) ''code is required'' = Inr ()"
    using assms(1) by (simp add: or_else_code assertPresent_truthy)
  have no_error: "\<not> truthy (req_error req)"
    using assms(2) by (simp add: truthy_def)
  show ?thesis
    using present no_error
    by (auto simp: slack_commands_def truthy_def String_def split: option.splits)
qed

theorem slack_commands_forwarding_witness:
  "truthy (req_code request0) \<and> req_error request0 = None
   \<and> req_state request0 = Some ''team-1''
   \<and> teams database0 ''team-1'' = Some \<lparr>team_url = ''https://acme.example.com''\<rparr>
   \<and> slack_commands ''https://app.example.com'' noSlack database0 None request0 =
       Inr (Redirect ''https://acme.example.com/auth/slack.commands?code=abc&state=team-1'', database0)
   \<and> \<not> truthy (req_state (request0\<lparr>req_state := None\<rparr>))
   \<and> slack_commands ''https://app.example.com'' noSlack database0 None (request0\<lparr>req_state := None\<rparr>) =
       Inr (Redirect ''/settings/integrations/slack?error=unauthenticated'', database0)"
proof -
  have c: "truthy (req_code request0)" and e: "req_error request0 = None"
    by (simp_all add: request0_def truthy_def)
  have c': "truthy (req_code (request0\<lparr>req_state := None\<rparr>))"
    and e': "req_error (request0\<lparr>req_state := None\<rparr>) = None"
    by (simp_all add: request0_def truthy_def)
  have t: "teams database0 ''team-1'' = Some \<lparr>team_url = ''https://acme.example.com''\<rparr>"
    by (simp add: database0_def)
  have s: "req_state request0 = Some ''team-1''" by (simp add: request0_def)
  have "slack_commands ''https://app.example.com'' noSlack database0 None request0 =
       Inr (Redirect (team_url \<lparr>team_url = ''https://acme.example.com''\<rparr> @ ''/auth''
              @ req_path request0 @ ''?'' @ req_querystring request0), database0)"
    using slack_commands_forwarding [OF c e, of database0 "''https://app.example.com''" noSlack] s t
    by blast
  moreover have "slack_commands ''https://app.example.com'' noSlack database0 None (request0\<lparr>req_state := None\<rparr>) =
       Inr (Redirect unauthenticated, database0)"
    using slack_commands_forwarding [OF c' e', of database0 "''https://app.example.com''" noSlack]
    by (simp add: truthy_def)
  ultimately show ?thesis using c e s t
    by (simp add: request0_def unauthenticated_def truthy_def)
qed

text \<open>
  C10 as stated covers every request that has a \<open>code\<close> parameter. A request whose \<open>code\<close> is
  present but empty (\<open>?code=\<close>) has no truthy \<open>code || error\<close>, and the handler leaves with
  the validation error instead of a redirect.
\<close>

theorem slack_commands_empty_code_counterexample:
  "req_code (request0\<lparr>req_code := Some ''''\<rparr>) = Some ''''
   \<and> req_error (request0\<lparr>req_code := Some ''''\<rparr>) = None
   \<and> slack_commands ''https://app.example.com'' noSlack database0 None (request0\<lparr>req_code := Some ''''\<rparr>)
       = Inl (ValidationError ''code is required'')"
  by (simp add: request0_def slack_commands_def or_else_def truthy_def assertPresent_def)

lemma assertUuid_undefined: "assertUuid isUUID None message = Inl (ValidationError message)"
  by (simp add: assertUuid_def)

text \<open>
  C7, as amended. When neither \<open>code\<close> nor \<open>error\<close> is present, both handlers leave with
  the ValidationError \<open>code is required\<close>; no redirect is issued by the handler and nothing
  is written. A redirect to \<open>/settings/integrations/slack?error=...\<close> is issued when the
  \<open>error\<close> parameter is present: always by \<open>slack.commands\<close>, and by \<open>slack.post\<close> when
  \<open>state\<close> passes the UUID check, which comes first and otherwise fails with the
  ValidationError \<open>collectionId must be an uuid\<close>.
\<close>

theorem slack_validation_error:
  "(req_code req = None \<and> req_error req = None \<longrightarrow>
      slack_commands envURL oauthAccess db user req = Inl (ValidationError ''code is required'')
      \<and> slack_post envURL isUUID oauthAccess db user req = Inl (ValidationError ''code is required''))
   \<and> (truthy (req_error req) \<longrightarrow>
      slack_commands envURL oauthAccess db user req =
        Inr (Redirect (''/settings/integrations/slack?error='' @ String (req_error req)), db))
   \<and> (truthy (req_error req) \<and> assertUuid isUUID (req_state req) ''collectionId must be an uuid'' = Inr () \<longrightarrow>
      slack_post envURL isUUID oauthAccess db user req =
        Inr (Redirect (''/settings/integrations/slack?error='' @ String (req_error req)), db))
   \<and> (truthy (req_error req) \<and> assertUuid isUUID (req_state req) ''collectionId must be an uuid'' \<noteq> Inr () \<longrightarrow>
      slack_post envURL isUUID oauthAccess db user req =
        Inl (ValidationError ''collectionId must be an uuid''))"
proof (intro conjI impI)
  assume a: "req_code req = None \<and> req_error req = None"
  then have "or_else (req_code req) (req_error req) = None"
    by (simp add: or_else_def truthy_def)
  then show "slack_commands envURL oauthAccess db user req = Inl (ValidationError ''code is required'')"
    and "slack_post envURL isUUID oauthAccess db user req = Inl (ValidationError ''code is required'')"
    by (simp_all add: slack_commands_def slack_post_def assertPresent_undefined)
next
  assume e: "truthy (req_error req)"
  then have "truthy (or_else (req_code req) (req_error req))" by (simp add: or_else_def)
  then have "assertPresent (or_else (req_code req) (req_error req)) ''code is required'' = Inr ()"
    by (rule assertPresent_truthy)
  with e show "slack_commands envURL oauthAccess db user req =
        Inr (Redirect (''/settings/integrations/slack?error='' @ String (req_error req)), db)"
    by (simp add: slack_commands_def)
next
  assume e: "truthy (req_error req) \<and> assertUuid isUUID (req_state req) ''collectionId must be an uuid'' = Inr ()"
  then have "truthy (or_else (req_code req) (req_error req))" by (simp add: or_else_def)
  then have "assertPresent (or_else (req_code req) (req_error req)) ''code is required'' = Inr ()"
    by (rule assertPresent_truthy)
  with e show "slack_post envURL isUUID oauthAccess db user req =
        Inr (Redirect (''/settings/integrations/slack?error='' @ String (req_error req)), db)"
    by (simp add: slack_post_def)
next
  assume e: "truthy (req_error req) \<and> assertUuid isUUID (req_state req) ''collectionId must be an uuid'' \<noteq> Inr ()"
  then have "truthy (or_else (req_code req) (req_error req))" by (simp add: or_else_def)
  then have p: "assertPresent (or_else (req_code req) (req_error req)) ''code is required'' = Inr ()"
    by (rule assertPresent_truthy)
  from e have "assertUuid isUUID (req_state req) ''collectionId must be an uuid''
      = Inl (ValidationError ''collectionId must be an uuid'')"
    by (auto simp: assertUuid_def split: option.splits if_splits)
  with p show "slack_post envURL isUUID oauthAccess db user req =
        Inl (ValidationError ''collectionId must be an uuid'')"
    by (simp add: slack_post_def)
qed

theorem slack_validation_error_witness:
  "req_code request1 = None \<and> req_error request1 = None
   \<and> slack_commands ''https://app.example.com'' noSlack database0 None request1
       = Inl (ValidationError ''code is required'')
   \<and> slack_post ''https://app.example.com'' isUUID36 noSlack database0 None request1
       = Inl (ValidationError ''code is required'')
   \<and> truthy (req_error denied)
   \<and> slack_commands ''https://app.example.com'' noSlack database0 None denied
       = Inr (Redirect ''/settings/integrations/slack?error=access_denied'', database0)
   \<and> assertUuid isUUID36 (req_state denied) ''collectionId must be an uuid'' \<noteq> Inr ()
   \<and> slack_post ''https://app.example.com'' isUUID36 noSlack database0 None denied
       = Inl (ValidationError ''collectionId must be an uuid'')
   \<and> assertUuid isUUID36 (req_state (denied\<lparr>req_state := Some ''0a0a0a0a-0a0a-4a0a-8a0a-0a0a0a0a0a0a''\<rparr>))
         ''collectionId must be an uuid'' = Inr ()
   \<and> slack_post ''https://app.example.com'' isUUID36 noSlack database0 None
         (denied\<lparr>req_state := Some ''0a0a0a0a-0a0a-4a0a-8a0a-0a0a0a0a0a0a''\<rparr>)
       = Inr (Redirect ''/settings/integrations/slack?error=access_denied'', database0)"
proof -
  have n: "req_code request1 = None \<and> req_error request1 = None" by (simp add: request1_def)
  have d: "truthy (req_error denied)" by (simp add: denied_def truthy_def)
  have d': "truthy (req_error (denied\<lparr>req_state := Some ''0a0a0a0a-0a0a-4a0a-8a0a-0a0a0a0a0a0a''\<rparr>))"
    by (simp add: denied_def truthy_def)
  have u: "assertUuid isUUID36 (req_state denied) ''collectionId must be an uuid'' \<noteq> Inr ()"
    by (simp add: denied_def assertUuid_def)
  have u': "assertUuid isUUID36 (req_state (denied\<lparr>req_state := Some ''0a0a0a0a-0a0a-4a0a-8a0a-0a0a0a0a0a0a''\<rparr>))
         ''collectionId must be an uuid'' = Inr ()"
    by (simp add: assertUuid_def isUUID36_def)
  note t1 = slack_validation_error [of request1 "''https://app.example.com''" noSlack database0 None isUUID36]
  note t2 = slack_validation_error [of denied "''https://app.example.com''" noSlack database0 None isUUID36]
  note t3 = slack_validation_error [of "denied\<lparr>req_state := Some ''0a0a0a0a-0a0a-4a0a-8a0a-0a0a0a0a0a0a''\<rparr>"
      "''https://app.example.com''" noSlack database0 None isUUID36]
  have "slack_commands ''https://app.example.com'' noSlack database0 None request1
       = Inl (ValidationError ''code is required'')"
    and "slack_post ''https://app.example.com'' isUUID36 noSlack database0 None request1
       = Inl (ValidationError ''code is required'')"
    using t1 n by blast+
  moreover have "slack_commands ''https://app.example.com'' noSlack database0 None denied
       = Inr (Redirect (''/settings/integrations/slack?error='' @ String (req_error denied)), database0)"
    using t2 d by blast
  moreover have "slack_post ''https://app.example.com'' isUUID36 noSlack database0 None denied
       = Inl (ValidationError ''collectionId must be an uuid'')"
    using t2 d u by blast
  moreover have "slack_post ''https://app.example.com'' isUUID36 noSlack database0 None
         (denied\<lparr>req_state := Some ''0a0a0a0a-0a0a-4a0a-8a0a-0a0a0a0a0a0a''\<rparr>)
       = Inr (Redirect (''/settings/integrations/slack?error=''
            @ String (req_error (denied\<lparr>req_state := Some ''0a0a0a0a-0a0a-4a0a-8a0a-0a0a0a0a0a0a''\<rparr>))), database0)"
    using t3 d' u' by blast
  ultimately show ?thesis using n d u u'
    by (simp add: denied_def String_def)
qed

text \<open>
  C7 as stated has the missing \<open>code\<close> surfaced as a redirect that carries an error
  parameter. On a request with neither \<open>code\<close> nor \<open>error\<close> the handler of \<open>slack.commands\<close>
  issues no redirect at all: it leaves with the ValidationError.
\<close>

theorem slack_commands_missing_code_counterexample:
  "req_code request1 = None \<and> req_error request1 = None
   \<and> slack_commands ''https://app.example.com'' noSlack database0 None request1
       = Inl (ValidationError ''code is required'')
   \<and> (\<forall>url db'. slack_commands ''https://app.example.com'' noSlack database0 None request1
       \<noteq> Inr (Redirect url, db'))"
  by (simp add: request1_def slack_commands_def or_else_def truthy_def assertPresent_def)

section \<open>Domain Availability Checker\<close>

lemma probe_contiguous:
  "m \<le> n \<Longrightarrow> \<forall>k. m \<le> k \<and> k < n \<longrightarrow> subdomainUsed ts (d @ toString k)
     \<Longrightarrow> \<not> subdomainUsed ts (d @ toString n) \<Longrightarrow> probe ts d m = d @ toString n"
proof (induction "n - m" arbitrary: m)
  case 0
  then have "m = n" by simp
  with 0(4) show ?case by (subst probe.simps) simp
next
  case (Suc j)
  then have lt: "m < n" by simp
  with Suc(4) have used: "subdomainUsed ts (d @ toString m)" by simp
  have "probe ts d (Suc m) = d @ toString n"
  proof (rule Suc(1))
    show "j = n - Suc m" using Suc(2) by simp
    show "Suc m \<le> n" using lt by simp
    show "\<forall>k. Suc m \<le> k \<and> k < n \<longrightarrow> subdomainUsed ts (d @ toString k)"
      using Suc(4) by simp
    show "\<not> subdomainUsed ts (d @ toString n)" by (rule Suc(5))
  qed
  with used show ?case by (subst probe.simps) simp
qed

text \<open>Whatever is in use, the value returned is not.\<close>

lemma probe_unused: "\<not> subdomainUsed ts (probe ts d n)"
proof (induction ts d n rule: probe.induct)
  case (1 ts desired n)
  then show ?case by (subst probe.simps) simp
qed

lemma resolveAvailableSubdomain_unused:
  "\<not> subdomainUsed ts (resolveAvailableSubdomain ts d)"
  by (simp add: resolveAvailableSubdomain_def probe_unused)

section \<open>Creating a team\<close>

lemma freshId_fresh: "t \<in> set ts \<Longrightarrow> Team_id t \<noteq> freshId ts"
proof -
  assume "t \<in> set ts"
  then have "Team_id t \<le> foldr max (map Team_id ts) 0"
    by (induction ts) auto
  then show ?thesis by (simp add: freshId_def)
qed

lemma attachProvider_fresh: "attachProvider ts (freshId ts) p = ts"
  unfolding attachProvider_def by (rule map_idI) (simp add: freshId_fresh)

lemma attach_new: "attach p (newTeam ts inp) = (newTeam ts inp)\<lparr>Team_providers := [p]\<rparr>"
  by (simp add: attach_def newTeam_def)

lemma teamCreator_creates:
  assumes "creates ts inp p"
  shows "teamCreator ts inp p =
     (ts @ [(newTeam ts inp)\<lparr>Team_providers := [p]\<rparr>],
      \<lparr>team = (newTeam ts inp)\<lparr>Team_providers := [p]\<rparr>, authenticationProvider = p,
       isNewTeam = True\<rparr>)"
proof -
  have "attachProvider (ts @ [newTeam ts inp]) (Team_id (newTeam ts inp)) p
      = attachProvider ts (freshId ts) p @ [attach p (newTeam ts inp)]"
    by (simp add: attachProvider_def newTeam_def)
  then have "attachProvider (ts @ [newTeam ts inp]) (Team_id (newTeam ts inp)) p
      = ts @ [(newTeam ts inp)\<lparr>Team_providers := [p]\<rparr>]"
    by (simp add: attachProvider_fresh attach_new)
  moreover have "teamResolver ts inp p = (ts @ [newTeam ts inp], newTeam ts inp, True)"
    using assms by (auto simp: creates_def teamResolver_def split: option.splits)
  ultimately show ?thesis by (simp add: teamCreator_def attach_new)
qed

text \<open>
  C1. When teams hold the subdomains \<open>d\<close>, \<open>d1\<close>, ..., \<open>d(n-1)\<close> and \<open>dn\<close> is free,
  \<open>resolveAvailableSubdomain\<close> returns \<open>d\<close> followed by \<open>n\<close>, the first unused value of the
  ascending probe, and a team created in a multi-tenant deployment with desired subdomain
  \<open>d\<close> gets that subdomain.
\<close>

theorem resolveAvailableSubdomain_contiguous:
  assumes "0 < n"
    and "subdomainUsed ts d"
    and "\<forall>k. 0 < k \<and> k < n \<longrightarrow> subdomainUsed ts (d @ toString k)"
    and "\<not> subdomainUsed ts (d @ toString n)"
  shows "resolveAvailableSubdomain ts d = d @ toString n
     \<and> (in_subdomain inp = d \<and> creates ts inp p \<longrightarrow>
          Team_subdomain (team (snd (teamCreator ts inp p))) = Some (d @ toString n)
          \<and> isNewTeam (snd (teamCreator ts inp p)))"
proof -
  have "probe ts d 1 = d @ toString n"
  proof (rule probe_contiguous)
    show "1 \<le> n" using assms(1) by simp
    show "\<forall>k. 1 \<le> k \<and> k < n \<longrightarrow> subdomainUsed ts (d @ toString k)" using assms(3) by simp
    show "\<not> subdomainUsed ts (d @ toString n)" by (rule assms(4))
  qed
  with assms(2) have r: "resolveAvailableSubdomain ts d = d @ toString n"
    by (simp add: resolveAvailableSubdomain_def)
  moreover have "Team_subdomain (team (snd (teamCreator ts inp p))) = Some (d @ toString n)
      \<and> isNewTeam (snd (teamCreator ts inp p))"
    if "in_subdomain inp = d" and "creates ts inp p"
    using that r by (simp add: teamCreator_creates) (simp add: newTeam_def)
  ultimately show ?thesis by blast
qed

text \<open>
  C2. When no team holds the subdomain \<open>d\<close>, \<open>resolveAvailableSubdomain\<close> returns \<open>d\<close>
  unchanged, and a team created in a multi-tenant deployment with desired subdomain \<open>d\<close>
  gets exactly \<open>d\<close>, its name and avatar verbatim from the input, and is reported as new.
\<close>

theorem resolveAvailableSubdomain_free:
  assumes "\<not> subdomainUsed ts d"
  shows "resolveAvailableSubdomain ts d = d
     \<and> (in_subdomain inp = d \<and> creates ts inp p \<longrightarrow>
          Team_subdomain (team (snd (teamCreator ts inp p))) = Some d
          \<and> Team_name (team (snd (teamCreator ts inp p))) = in_name inp
          \<and> Team_avatarUrl (team (snd (teamCreator ts inp p))) = in_avatarUrl inp
          \<and> isNewTeam (snd (teamCreator ts inp p)))"
proof -
  have r: "resolveAvailableSubdomain ts d = d"
    using assms by (simp add: resolveAvailableSubdomain_def)
  moreover have "Team_subdomain (team (snd (teamCreator ts inp p))) = Some d
          \<and> Team_name (team (snd (teamCreator ts inp p))) = in_name inp
          \<and> Team_avatarUrl (team (snd (teamCreator ts inp p))) = in_avatarUrl inp
          \<and> isNewTeam (snd (teamCreator ts inp p))"
    if "in_subdomain inp = d" and "creates ts inp p"
    using that r by (simp add: teamCreator_creates) (simp add: newTeam_def)
  ultimately show ?thesis by blast
qed

section \<open>The hosted scenarios of the teamCreator tests\<close>

text \<open>
  The three hosted tests of \<open>teamCreator.test\<close> on the definitions above: a first team
  with its authentication provider, and the suffixes \<open>myteam1\<close> and \<open>myteam2\<close> when
  \<open>myteam\<close>, and then \<open>myteam1\<close> too, is taken.
\<close>

lemma test_create_team:
  "teamCreator [] (testInput ''Test team'' ''example'' None) google =
     ([\<lparr>Team_id = 1, Team_name = ''Test team'', Team_subdomain = Some ''example'',
         Team_avatarUrl = Some ''http://example.com/logo.png'', Team_domains = [],
         Team_providers = [(''google'', ''example.com'')]\<rparr>],
      \<lparr>team = \<lparr>Team_id = 1, Team_name = ''Test team'', Team_subdomain = Some ''example'',
                Team_avatarUrl = Some ''http://example.com/logo.png'', Team_domains = [],
                Team_providers = [(''google'', ''example.com'')]\<rparr>,
       authenticationProvider = (''google'', ''example.com''), isNewTeam = True\<rparr>)"
  by code_simp

lemma test_subdomain_append:
  "Team_subdomain (team (snd (teamCreator myteam (testInput ''Test team'' ''myteam'' None) google)))
     = Some ''myteam1''"
  by code_simp

lemma test_subdomain_increment:
  "Team_subdomain (team (snd (teamCreator myteam1 (testInput ''Test team'' ''myteam'' None) google)))
     = Some ''myteam2''"
  by code_simp

lemma myteam1_used:
  "subdomainUsed myteam1 ''myteam''" "subdomainUsed myteam1 (''myteam'' @ toString 1)"
  "\<not> subdomainUsed myteam1 (''myteam'' @ toString 2)"
  "creates myteam1 (testInput ''Test team'' ''myteam'' None) google"
  by code_simp+

theorem resolveAvailableSubdomain_contiguous_witness:
  "(0::nat) < 2
   \<and> subdomainUsed myteam1 ''myteam''
   \<and> subdomainUsed myteam1 (''myteam'' @ toString 1)
   \<and> \<not> subdomainUsed myteam1 (''myteam'' @ toString 2)
   \<and> resolveAvailableSubdomain myteam1 ''myteam'' = ''myteam2''
   \<and> in_subdomain (testInput ''Test team'' ''myteam'' None) = ''myteam''
   \<and> creates myteam1 (testInput ''Test team'' ''myteam'' None) google
   \<and> Team_subdomain (team (snd (teamCreator myteam1 (testInput ''Test team'' ''myteam'' None) google)))
       = Some ''myteam2''
   \<and> isNewTeam (snd (teamCreator myteam1 (testInput ''Test team'' ''myteam'' None) google))"
proof -
  have all: "\<forall>k. 0 < k \<and> k < 2 \<longrightarrow> subdomainUsed myteam1 (''myteam'' @ toString k)"
  proof (intro allI impI)
    fix k :: nat assume "0 < k \<and> k < 2"
    then have "k = 1" by simp
    then show "subdomainUsed myteam1 (''myteam'' @ toString k)" using myteam1_used(2) by simp
  qed
  have two: "toString 2 = ''2''" by code_simp
  have sub: "in_subdomain (testInput ''Test team'' ''myteam'' None) = ''myteam''"
    by (simp add: testInput_def)
  note inst = resolveAvailableSubdomain_contiguous
    [of 2 myteam1 "''myteam''" "testInput ''Test team'' ''myteam'' None" google,
     OF _ myteam1_used(1) all myteam1_used(3)]
  have "resolveAvailableSubdomain myteam1 ''myteam'' = ''myteam2''"
    using inst two by simp
  moreover have "Team_subdomain (team (snd (teamCreator myteam1
      (testInput ''Test team'' ''myteam'' None) google))) = Some ''myteam2''
    \<and> isNewTeam (snd (teamCreator myteam1 (testInput ''Test team'' ''myteam'' None) google))"
    using inst sub myteam1_used(4) two by simp
  ultimately show ?thesis using myteam1_used sub by simp
qed

lemma example_free:
  "\<not> subdomainUsed [] ''example''" "creates [] (testInput ''Test team'' ''example'' None) google"
  by code_simp+

theorem resolveAvailableSubdomain_free_witness:
  "\<not> subdomainUsed [] ''example''
   \<and> resolveAvailableSubdomain [] ''example'' = ''example''
   \<and> in_subdomain (testInput ''Test team'' ''example'' None) = ''example''
   \<and> creates [] (testInput ''Test team'' ''example'' None) google
   \<and> Team_subdomain (team (snd (teamCreator [] (testInput ''Test team'' ''example'' None) google)))
       = Some ''example''
   \<and> Team_name (team (snd (teamCreator [] (testInput ''Test team'' ''example'' None) google)))
       = ''Test team''
   \<and> Team_avatarUrl (team (snd (teamCreator [] (testInput ''Test team'' ''example'' None) google)))
       = Some ''http://example.com/logo.png''
   \<and> isNewTeam (snd (teamCreator [] (testInput ''Test team'' ''example'' None) google))"
proof -
  have sub: "in_subdomain (testInput ''Test team'' ''example'' None) = ''example''"
    and name: "in_name (testInput ''Test team'' ''example'' None) = ''Test team''"
    and avatar: "in_avatarUrl (testInput ''Test team'' ''example'' None)
        = Some ''http://example.com/logo.png''"
    by (simp_all add: testInput_def)
  note inst = resolveAvailableSubdomain_free
    [of "[]" "''example''" "testInput ''Test team'' ''example'' None" google, OF example_free(1)]
  have "resolveAvailableSubdomain [] ''example'' = ''example''"
    using inst by simp
  moreover have "Team_subdomain (team (snd (teamCreator []
        (testInput ''Test team'' ''example'' None) google))) = Some ''example''
    \<and> Team_name (team (snd (teamCreator [] (testInput ''Test team'' ''example'' None) google)))
       = ''Test team''
    \<and> Team_avatarUrl (team (snd (teamCreator [] (testInput ''Test team'' ''example'' None) google)))
       = Some ''http://example.com/logo.png''
    \<and> isNewTeam (snd (teamCreator [] (testInput ''Test team'' ''example'' None) google))"
    using inst sub name avatar example_free(2) by simp
  ultimately show ?thesis using example_free sub by simp
qed

end
